theory Spec2Isabelle
  imports Complex_Main
begin

section \<open>JavaScript values used by the synchronizer CLI\<close>

text \<open>
  The program is one Node.js file, \<^verbatim>\<open>src/index.js\<close>. Its functions talk to the host through
  \<^verbatim>\<open>execSync\<close> (a shell command that either returns its standard output or throws), through
  \<^verbatim>\<open>fetch\<close> and through \<^verbatim>\<open>Math.random\<close>. In the embedding every such effect is an explicit
  input of the function that performs it, an exception is the left summand of a sum type, and
  \<^verbatim>\<open>try { ... } catch\<close> is a case distinction on that sum.

  Strings are \<^typ>\<open>string\<close>; the commands and markers the program looks at are ASCII.
  A property of a JSON object that may be absent is an \<^typ>\<open>'a option\<close>, with \<open>None\<close> for
  \<^verbatim>\<open>undefined\<close>.
\<close>

datatype js_error = Error string

type_synonym 'a result = "js_error + 'a"

text \<open>A shell: what \<^verbatim>\<open>execSync(cmd, {encoding: 'utf8', stdio: 'pipe'})\<close> does for each command.\<close>

type_synonym shell = "string \<Rightarrow> string result"

text \<open>Truthiness of a value that is a string or \<^verbatim>\<open>undefined\<close>: the empty string is falsy.\<close>

definition truthy :: "string option \<Rightarrow> bool" where
  "truthy v = (case v of None \<Rightarrow> False | Some s \<Rightarrow> s \<noteq> [])"

text \<open>\<^verbatim>\<open>a || b\<close> on such values, with a string on the right.\<close>

definition or_else :: "string option \<Rightarrow> string \<Rightarrow> string" where
  "or_else v d = (case v of None \<Rightarrow> d | Some s \<Rightarrow> if s = [] then d else s)"

text \<open>\<^verbatim>\<open>s.startsWith(p)\<close> and \<^verbatim>\<open>s.includes(sub)\<close>.\<close>

definition startsWith :: "string \<Rightarrow> string \<Rightarrow> bool" where
  "startsWith s p = (take (length p) s = p)"

fun str_includes :: "string \<Rightarrow> string \<Rightarrow> bool" where
  "str_includes [] sub = (sub = [])"
| "str_includes (c # cs) sub = (startsWith (c # cs) sub \<or> str_includes cs sub)"

text \<open>\<^verbatim>\<open>s.trim()\<close>, on the ASCII white space and line terminators.\<close>

definition is_space :: "char \<Rightarrow> bool" where
  "is_space c = (c \<in> set [CHR '' '', CHR 0x09, CHR 0x0A, CHR 0x0B, CHR 0x0C, CHR 0x0D])"

definition trim :: "string \<Rightarrow> string" where
  "trim s = rev (dropWhile is_space (rev (dropWhile is_space s)))"

text \<open>\<^verbatim>\<open>s.split(sep)\<close> for a one-character separator: always at least one piece.\<close>

fun str_split :: "char \<Rightarrow> string \<Rightarrow> string list" where
  "str_split sep [] = [[]]"
| "str_split sep (c # cs) =
     (if c = sep then [] # str_split sep cs
      else (case str_split sep cs of
              [] \<Rightarrow> [[c]]
            | p # ps \<Rightarrow> (c # p) # ps))"

text \<open>\<^verbatim>\<open>parts.join(sep)\<close> on strings.\<close>

fun str_join :: "string \<Rightarrow> string list \<Rightarrow> string" where
  "str_join sep [] = []"
| "str_join sep [p] = p"
| "str_join sep (p # q # ps) = p @ sep @ str_join sep (q # ps)"

section \<open>Configuration\<close>

text \<open>
  \<^verbatim>\<open>loadConfig\<close> returns the parsed \<^verbatim>\<open>config.json\<close>, or \<^verbatim>\<open>{}\<close> when the file does not exist.
  The fields the modelled functions read:
\<close>

record config =
  key :: "string option"
  wallet :: "string option"
  account :: "string option"
  hostname :: "string option"
  syncHash :: "string option"
  depin :: "string option"
  dashboardPassword :: "string option"

definition empty_config :: config where
  "empty_config = \<lparr>key = None, wallet = None, account = None, hostname = None,
     syncHash = None, depin = None, dashboardPassword = None\<rparr>"

section \<open>Image freshness check\<close>

text \<open>
  \<^verbatim>\<open>isNewDockerImageAvailable(imageName)\<close>, lines 145 to 171. The inner \<^verbatim>\<open>try\<close> runs
  \<^verbatim>\<open>docker images <imageName> --format "{{.ID}}"\<close>; an empty trimmed output and a thrown
  command both return \<^verbatim>\<open>true\<close>; otherwise the function returns \<^verbatim>\<open>false\<close>. The outer
  \<^verbatim>\<open>catch\<close> turns anything else into \<^verbatim>\<open>true\<close>.
\<close>

definition docker_images_cmd :: "string \<Rightarrow> string" where
  "docker_images_cmd imageName = ''docker images '' @ imageName @ '' --format \"{{.ID}}\"''"

definition isNewDockerImageAvailable_inner :: "shell \<Rightarrow> string \<Rightarrow> bool result" where
  "isNewDockerImageAvailable_inner sh imageName =
     (case sh (docker_images_cmd imageName) of
        Inl e \<Rightarrow> Inr True
      | Inr out \<Rightarrow>
          (let localImageId = trim out
           in if localImageId = [] then Inr True else Inr False))"

definition isNewDockerImageAvailable :: "shell \<Rightarrow> string \<Rightarrow> bool result" where
  "isNewDockerImageAvailable sh imageName =
     (case isNewDockerImageAvailable_inner sh imageName of
        Inl e \<Rightarrow> Inr True
      | Inr b \<Rightarrow> Inr b)"

text \<open>
  The contract of the container runtime's image listing, which is not code of this program:
  the local image store is a list of (reference, image id) pairs, and the listing prints the
  id of every image stored under the reference asked for, one per line. An image id is a
  non-empty word without white space (twelve hexadecimal digits in practice).
\<close>

type_synonym image_store = "(string \<times> string) list"

definition docker_images_output :: "image_store \<Rightarrow> string \<Rightarrow> string" where
  "docker_images_output store ref =
     concat (map (\<lambda>(r, i). i @ [CHR 0x0A]) (filter (\<lambda>(r, i). r = ref) store))"

definition wf_image_id :: "string \<Rightarrow> bool" where
  "wf_image_id i = (i \<noteq> [] \<and> (\<forall>c \<in> set i. \<not> is_space c))"

definition wf_store :: "image_store \<Rightarrow> bool" where
  "wf_store store = (\<forall>(r, i) \<in> set store. wf_image_id i)"

definition has_local_image :: "image_store \<Rightarrow> string \<Rightarrow> bool" where
  "has_local_image store ref = (\<exists>i. (ref, i) \<in> set store)"

section \<open>Dashboard authentication\<close>

text \<open>
  \<^verbatim>\<open>Buffer.from(s, 'base64').toString()\<close> is Node's library: characters outside the base64
  alphabet are skipped, decoding stops at the padding, every four digits give three bytes and
  a trailing group of three or two digits gives two bytes or one. Bytes are characters here,
  which is what \<^verbatim>\<open>toString()\<close> gives on ASCII.
\<close>

definition base64_alphabet :: string where
  "base64_alphabet = ''ABCDEFGHIJKLMNOPQRSTUVWXYZabcdefghijklmnopqrstuvwxyz0123456789+/''"

fun index_of :: "char \<Rightarrow> string \<Rightarrow> nat option" where
  "index_of c [] = None"
| "index_of c (x # xs) = (if c = x then Some 0 else map_option Suc (index_of c xs))"

definition base64_value :: "char \<Rightarrow> nat option" where
  "base64_value c = index_of c base64_alphabet"

fun base64_bytes :: "nat list \<Rightarrow> nat list" where
  "base64_bytes (a # b # c # d # rest) =
     (a * 4 + b div 16) # ((b mod 16) * 16 + c div 4) # ((c mod 4) * 64 + d) # base64_bytes rest"
| "base64_bytes [a, b, c] = [a * 4 + b div 16, (b mod 16) * 16 + c div 4]"
| "base64_bytes [a, b] = [a * 4 + b div 16]"
| "base64_bytes _ = []"

definition base64_decode :: "string \<Rightarrow> string" where
  "base64_decode s =
     map char_of (base64_bytes (List.map_filter base64_value (takeWhile (\<lambda>c. c \<noteq> CHR ''='') s)))"

text \<open>
  \<^verbatim>\<open>authenticateRequest(req, res, next)\<close>, lines 62 to 89. The request is its
  \<^verbatim>\<open>Authorization\<close> header. The outcome is either \<^verbatim>\<open>next()\<close>, with the value of
  \<^verbatim>\<open>req.authenticated\<close> the route handler will see (it stays \<^verbatim>\<open>undefined\<close>, falsy, when no
  password is set), or the response 401 with the header
  \<^verbatim>\<open>WWW-Authenticate: Basic realm="Synchronizer Dashboard"\<close> and the given body.
\<close>

record request =
  authorization :: "string option"

datatype auth_outcome = Next bool | Challenge401 string

definition authenticateRequest :: "config \<Rightarrow> request \<Rightarrow> auth_outcome" where
  "authenticateRequest config req =
     (if \<not> truthy (dashboardPassword config) then Next False
      else
        (case authorization req of
           None \<Rightarrow> Challenge401 ''Authentication required''
         | Some auth \<Rightarrow>
             if auth = [] \<or> \<not> startsWith auth ''Basic ''
             then Challenge401 ''Authentication required''
             else
               (let credentials = base64_decode (drop 6 auth);
                    parts = str_split CHR '':'' credentials;
                    password = (if 1 < length parts then Some (parts ! 1) else None)
                in if password = dashboardPassword config then Next True
                   else Challenge401 ''Invalid credentials'')))"


text \<open>
  \<^verbatim>\<open>generateDashboardHTML(config, metricsPort, authenticated, primaryIP)\<close>, line 1355. The
  result is a page of some 650 lines of static markup; the record keeps the three locals
  computed from the credentials first (lines 1357 to 1359) and the three places of the
  template that interpolate the key and the wallet (lines 1595, 1598 and 1604, the only ones).
  The mask is made of the bullet U+2022, three bytes in UTF-8.
\<close>

definition bullets :: "nat \<Rightarrow> string" where
  "bullets n = concat (replicate n [CHR 0xE2, CHR 0x80, CHR 0xA2])"

definition key_mask :: string where
  "key_mask = bullets 8 @ ''-'' @ bullets 4 @ ''-'' @ bullets 4 @ ''-'' @ bullets 4 @ ''-'' @ bullets 12"

definition wallet_mask :: string where
  "wallet_mask = ''0x'' @ bullets 40"

record dashboard =
  showSensitiveData :: bool
  maskedKey :: "string option"
  maskedWallet :: "string option"
  synq_key_masked_span :: string
  synq_key_full_span :: string
  wallet_span :: string

definition generateDashboardHTML :: "config \<Rightarrow> bool \<Rightarrow> dashboard" where
  "generateDashboardHTML config authenticated =
     (let showSensitive = (\<not> truthy (dashboardPassword config) \<or> authenticated)
      in \<lparr>showSensitiveData = showSensitive,
          maskedKey = (if showSensitive then key config else Some key_mask),
          maskedWallet = (if showSensitive then wallet config else Some wallet_mask),
          synq_key_masked_span = (if truthy (key config) then key_mask else ''Not set''),
          synq_key_full_span = or_else (key config) ''Not set'',
          wallet_span = or_else (wallet config) ''Not set''\<rparr>)"

text \<open>
  The dashboard application, lines 1163 to 1169: the middleware runs before every route, and
  the route \<^verbatim>\<open>/\<close> sends the page rendered with \<^verbatim>\<open>req.authenticated\<close>. The configuration
  file is taken not to change between the start of the server and the request.
\<close>

datatype http_response = Unauthorized string | Page dashboard

definition gui_root :: "config \<Rightarrow> request \<Rightarrow> http_response" where
  "gui_root config req =
     (case authenticateRequest config req of
        Next authenticated \<Rightarrow> Page (generateDashboardHTML config authenticated)
      | Challenge401 body \<Rightarrow> Unauthorized body)"


section \<open>Starting the synchronizer container\<close>

text \<open>
  \<^verbatim>\<open>start()\<close>, lines 462 to 677. The host is what \<^verbatim>\<open>os.hostname()\<close>, \<^verbatim>\<open>os.arch()\<close> and
  \<^verbatim>\<open>os.platform()\<close> return. The version of the package comes from \<^verbatim>\<open>package.json\<close>, which
  is a parameter. A run of \<^verbatim>\<open>start\<close> is the list of effects it issued on the host, in order,
  and the code the process exited with; the console output is left out, and so are the signal
  handlers (the run modelled is one in which no SIGINT or SIGTERM arrives).
\<close>

record host =
  os_hostname :: string
  os_arch :: string
  os_platform :: string

datatype effect =
    ExecSync string
  | SpawnProc string "string option list"
  | InstallDocker

record run =
  effects :: "effect list"
  exit_code :: int

text \<open>How a spawned process ends: the \<^verbatim>\<open>exit\<close> event with its code, or the \<^verbatim>\<open>error\<close> event.\<close>

datatype proc_outcome = Exited int | SpawnFailed string

text \<open>
  What the host answers: the shell as it is when \<^verbatim>\<open>start\<close> begins, the operator's answer to
  the installation prompt, the shell after the installation helper has run, and how the two
  processes \<^verbatim>\<open>start\<close> may spawn end.
\<close>

record start_env =
  env_shell :: shell
  env_install_answer :: bool
  env_shell_installed :: shell
  env_logs_exit :: int
  env_run_outcome :: proc_outcome

definition checkDocker :: "shell \<Rightarrow> bool" where
  "checkDocker sh = (case sh ''docker --version'' of Inl e \<Rightarrow> False | Inr out \<Rightarrow> True)"

definition dockerPlatform :: "host \<Rightarrow> string" where
  "dockerPlatform h =
     (if os_platform h = ''linux'' then
        (if os_arch h = ''arm64'' \<or> os_arch h = ''aarch64'' then ''linux/arm64''
         else if os_arch h = ''x64'' \<or> os_arch h = ''x86_64'' then ''linux/amd64''
         else ''linux/amd64'')
      else if os_platform h = ''darwin'' then
        (if os_arch h = ''arm64'' then ''linux/arm64'' else ''linux/amd64'')
      else ''linux/amd64'')"

definition launcherWithVersion :: "string \<Rightarrow> string" where
  "launcherWithVersion version = ''cli-'' @ version @ ''/docker-2.1.3''"

text \<open>
  The argument vector, lines 583 to 616, push by push. An element is a JavaScript value:
  \<open>None\<close> is \<^verbatim>\<open>undefined\<close>, which is what \<^verbatim>\<open>config.syncHash\<close> is when the file has no such
  field.
\<close>

definition start_args :: "string \<Rightarrow> config \<Rightarrow> host \<Rightarrow> string option list" where
  "start_args version config h =
     (let containerName = ''synchronizer-cli'';
          imageName = ''cdrakep/synqchronizer:latest'';
          args0 = map Some [''run'', ''--rm'', ''--name'', containerName,
                            ''--pull'', ''always'',
                            ''--platform'', dockerPlatform h,
                            imageName];
          args1 = (if truthy (depin config)
                   then args0 @ [Some ''--depin''] @ [depin config]
                   else args0 @ [Some ''--depin''] @ [Some ''wss://api.multisynq.io/depin'']);
          args2 = args1 @ [Some ''--sync-name''] @ [syncHash config];
          args3 = args2 @ [Some ''--launcher''] @ [Some (launcherWithVersion version)];
          args4 = args3 @ [Some ''--key''] @ [key config];
          args5 = (if truthy (wallet config)
                   then args4 @ [Some ''--wallet''] @ [wallet config]
                   else args4);
          args6 = (if truthy (account config)
                   then args5 @ [Some ''--account''] @ [account config]
                   else args5)
      in args6)"

definition docker_ps_cmd :: "string \<Rightarrow> string" where
  "docker_ps_cmd name = ''docker ps --filter name='' @ name @ '' --format \"{{.Names}}\"''"

text \<open>From line 500 on: attach to a running container, or pull if needed and launch.\<close>

definition start_container ::
  "string \<Rightarrow> config \<Rightarrow> host \<Rightarrow> start_env \<Rightarrow> shell \<Rightarrow> effect list \<Rightarrow> run" where
  "start_container version config h env sh issued =
     (let containerName = ''synchronizer-cli'';
          imageName = ''cdrakep/synqchronizer:latest'';
          asked = issued @ [ExecSync (docker_ps_cmd containerName)];
          found = (case sh (docker_ps_cmd containerName) of
                     Inl e \<Rightarrow> False
                   | Inr runningContainers \<Rightarrow> str_includes runningContainers containerName)
      in if found then
           \<lparr>effects = asked @ [SpawnProc ''docker'' [Some ''logs'', Some ''-f'', Some containerName]],
            exit_code = env_logs_exit env\<rparr>
         else
           (let checked = asked @ [ExecSync (docker_images_cmd imageName)]
            in case isNewDockerImageAvailable sh imageName of
                 Inl e \<Rightarrow> \<lparr>effects = checked, exit_code = 1\<rparr>
               | Inr shouldPull \<Rightarrow>
                   (let pulled = (if shouldPull
                                  then checked @ [ExecSync (''docker pull '' @ imageName)]
                                  else checked)
                    in \<lparr>effects = pulled @ [SpawnProc ''docker'' (start_args version config h)],
                        exit_code = (case env_run_outcome env of
                                       Exited code \<Rightarrow> code
                                     | SpawnFailed msg \<Rightarrow> 1)\<rparr>)))"

definition start :: "string \<Rightarrow> config \<Rightarrow> host \<Rightarrow> start_env \<Rightarrow> run" where
  "start version config h env =
     (if \<not> truthy (key config) then \<lparr>effects = [], exit_code = 1\<rparr>
      else if hostname config \<noteq> Some (os_hostname h) then \<lparr>effects = [], exit_code = 1\<rparr>
      else if \<not> checkDocker (env_shell env) then
        (if env_install_answer env then
           (if \<not> checkDocker (env_shell_installed env)
            then \<lparr>effects = [ExecSync ''docker --version'', InstallDocker,
                              ExecSync ''docker --version''],
                  exit_code = 1\<rparr>
            else start_container version config h env (env_shell_installed env)
                   [ExecSync ''docker --version'', InstallDocker, ExecSync ''docker --version''])
         else \<lparr>effects = [ExecSync ''docker --version''], exit_code = 1\<rparr>)
      else start_container version config h env (env_shell env) [ExecSync ''docker --version''])"

text \<open>The effects that address the container runtime.\<close>

fun is_runtime_command :: "effect \<Rightarrow> bool" where
  "is_runtime_command (ExecSync cmd) = startsWith cmd ''docker''"
| "is_runtime_command (SpawnProc cmd args) = (cmd = ''docker'')"
| "is_runtime_command InstallDocker = False"

text \<open>
  \<^verbatim>\<open>installService()\<close>, lines 683 to 757, as far as the command line of the unit goes: the
  two guards, then the argument list of lines 746 to 756 and its \<^verbatim>\<open>join(' ')\<close>, in which
  \<^verbatim>\<open>undefined\<close> prints as the empty string. \<open>None\<close> is the exit with code 1.
\<close>

definition installService_dockerArgs :: "string \<Rightarrow> config \<Rightarrow> host \<Rightarrow> string option list" where
  "installService_dockerArgs version config h =
     map Some [''run'', ''--rm'', ''--name'', ''synchronizer-cli'',
               ''--pull'', ''always'',
               ''--platform'', dockerPlatform h,
               ''cdrakep/synqchronizer:latest'',
               ''--depin'', or_else (depin config) ''wss://api.multisynq.io/depin'',
               ''--sync-name''] @ [syncHash config] @
     [Some ''--launcher'', Some (launcherWithVersion version),
      Some ''--key'', key config] @
     (if truthy (wallet config) then [Some ''--wallet'', wallet config] else []) @
     (if truthy (account config) then [Some ''--account'', account config] else [])"

definition join_element :: "string option \<Rightarrow> string" where
  "join_element a = (case a of None \<Rightarrow> [] | Some s \<Rightarrow> s)"

definition installService_command :: "string \<Rightarrow> config \<Rightarrow> host \<Rightarrow> string option" where
  "installService_command version config h =
     (if \<not> truthy (key config) then None
      else if \<not> truthy (wallet config) \<and> \<not> truthy (account config) then None
      else Some (str_join '' '' (map join_element (installService_dockerArgs version config h))))"


section \<open>Exceptions\<close>

text \<open>
  Statements that may throw are values of \<^typ>\<open>'a result\<close>; \<open>and_then\<close> runs the next
  statement unless the first threw, and \<open>try_catch\<close> is \<^verbatim>\<open>try { body } catch (error) { handler }\<close>.
\<close>

definition and_then :: "'a result \<Rightarrow> ('a \<Rightarrow> 'b result) \<Rightarrow> 'b result" where
  "and_then r f = (case r of Inl e \<Rightarrow> Inl e | Inr v \<Rightarrow> f v)"

definition try_catch :: "'a result \<Rightarrow> (js_error \<Rightarrow> 'a result) \<Rightarrow> 'a result" where
  "try_catch body handler = (case body of Inl e \<Rightarrow> handler e | Inr v \<Rightarrow> Inr v)"

definition message :: "js_error \<Rightarrow> string" where
  "message e = (case e of Error m \<Rightarrow> m)"

section \<open>The status view\<close>

text \<open>
  \<^verbatim>\<open>getSystemStatus(config)\<close>, lines 2005 to 2114. The object it fills in, with the initial
  values of lines 2006 to 2018:
\<close>

record image_status =
  image_name :: string
  updateAvailable :: bool
  check_error :: "string option"

record image_updates =
  available :: nat
  lastChecked :: "string option"
  images :: "image_status list"
  updates_error :: "string option"

record system_status =
  timestamp :: string
  serviceStatus :: string
  dockerAvailable :: bool
  autoStart :: bool
  uptime :: "string option"
  containerRunning :: bool
  imageUpdates :: image_updates

definition no_image_updates :: image_updates where
  "no_image_updates = \<lparr>available = 0, lastChecked = None, images = [], updates_error = None\<rparr>"

definition initial_status :: "string \<Rightarrow> system_status" where
  "initial_status now =
     \<lparr>timestamp = now, serviceStatus = ''unknown'', dockerAvailable = False, autoStart = False,
      uptime = None, containerRunning = False, imageUpdates = no_image_updates\<rparr>"

text \<open>
  What the probes meet on the host: the clock read at line 2007 and again at line 2104, the
  shell, and whether the unit file exists.
\<close>

record status_env =
  st_now :: string
  st_checked_at :: string
  st_shell :: shell
  st_service_file_exists :: bool

text \<open>
  \<^verbatim>\<open>line.match(/since (.+?);/)\<close>, group 1: the leftmost \<^verbatim>\<open>since \<close> that is followed by at
  least one character and later a semicolon on the same line, and the shortest such group.
\<close>

definition is_line_terminator :: "char \<Rightarrow> bool" where
  "is_line_terminator c = (c = CHR 0x0A \<or> c = CHR 0x0D)"

definition lazy_group :: "string \<Rightarrow> string option" where
  "lazy_group rest =
     (case rest of
        [] \<Rightarrow> None
      | x # xs \<Rightarrow>
          if is_line_terminator x then None
          else
            (let body = takeWhile (\<lambda>c. c \<noteq> CHR '';'' \<and> \<not> is_line_terminator c) xs
             in case drop (length body) xs of
                  [] \<Rightarrow> None
                | y # ys \<Rightarrow> if y = CHR '';'' then Some (x # body) else None))"

fun match_since :: "string \<Rightarrow> string option" where
  "match_since [] = None"
| "match_since (c # cs) =
     (if startsWith (c # cs) ''since '' then
        (case lazy_group (drop 6 (c # cs)) of
           Some g \<Rightarrow> Some g
         | None \<Rightarrow> match_since cs)
      else match_since cs)"

definition systemctl_cmd :: string where
  "systemctl_cmd = ''systemctl status synchronizer-cli --no-pager''"

text \<open>Lines 2021 to 2026.\<close>

definition check_docker :: "status_env \<Rightarrow> system_status \<Rightarrow> system_status result" where
  "check_docker env status =
     try_catch
       (and_then (st_shell env ''docker --version'')
          (\<lambda>out. Inr (status\<lparr>dockerAvailable := True\<rparr>)))
       (\<lambda>error. Inr (status\<lparr>dockerAvailable := False\<rparr>))"

text \<open>Lines 2037 to 2056, on the output of \<^verbatim>\<open>systemctl status\<close>.\<close>

definition read_service_status :: "string \<Rightarrow> system_status \<Rightarrow> system_status" where
  "read_service_status statusOutput status =
     (let s1 = (if str_includes statusOutput ''active (running)''
                then status\<lparr>serviceStatus := ''running''\<rparr>
                else if str_includes statusOutput ''inactive (dead)''
                then status\<lparr>serviceStatus := ''stopped''\<rparr>
                else if str_includes statusOutput ''failed''
                then status\<lparr>serviceStatus := ''failed''\<rparr>
                else status);
          s2 = (if str_includes statusOutput ''enabled'' then s1\<lparr>autoStart := True\<rparr> else s1);
          uptimeLine = find (\<lambda>line. str_includes line ''Active:'') (str_split CHR 0x0A statusOutput)
      in case uptimeLine of
           None \<Rightarrow> s2
         | Some line \<Rightarrow>
             if line \<noteq> [] \<and> str_includes line ''since'' then
               (case match_since line of
                  None \<Rightarrow> s2
                | Some m \<Rightarrow> s2\<lparr>uptime := Some m\<rparr>)
             else s2)"

text \<open>Lines 2029 to 2060.\<close>

definition check_service :: "status_env \<Rightarrow> system_status \<Rightarrow> system_status result" where
  "check_service env status =
     try_catch
       (if st_service_file_exists env then
          and_then (st_shell env systemctl_cmd)
            (\<lambda>statusOutput. Inr (read_service_status statusOutput status))
        else Inr status)
       (\<lambda>error. Inr status)"

text \<open>Lines 2063 to 2071.\<close>

definition check_container :: "status_env \<Rightarrow> system_status \<Rightarrow> system_status result" where
  "check_container env status =
     try_catch
       (and_then (st_shell env (docker_ps_cmd ''synchronizer-cli''))
          (\<lambda>dockerPs. Inr (status\<lparr>containerRunning := str_includes dockerPs ''synchronizer-cli''\<rparr>)))
       (\<lambda>error. Inr status)"

text \<open>
  Lines 2084 to 2100: the loop over the known images. \<open>check\<close> is the awaited call of line
  2087; the loop carries \<^verbatim>\<open>updatesAvailable\<close> and \<^verbatim>\<open>imageStatuses\<close>.
\<close>

definition known_images :: "string list" where
  "known_images = [''cdrakep/synqchronizer:latest'', ''cdrakep/synqchronizer-test-fixed:latest'']"

fun check_each_image ::
  "(string \<Rightarrow> bool result) \<Rightarrow> string list \<Rightarrow> nat \<times> image_status list \<Rightarrow> (nat \<times> image_status list) result"
  where
  "check_each_image check [] acc = Inr acc"
| "check_each_image check (imageName # rest) (updatesAvailable, imageStatuses) =
     and_then
       (try_catch
          (and_then (check imageName)
             (\<lambda>hasUpdate.
                Inr ((if hasUpdate then updatesAvailable + 1 else updatesAvailable),
                     imageStatuses @
                       [\<lparr>image_name = imageName, updateAvailable = hasUpdate, check_error = None\<rparr>])))
          (\<lambda>error.
             Inr (updatesAvailable,
                  imageStatuses @
                    [\<lparr>image_name = imageName, updateAvailable = False,
                      check_error = Some (message error)\<rparr>])))
       (check_each_image check rest)"

text \<open>Lines 2074 to 2111.\<close>

definition check_image_updates ::
  "(string \<Rightarrow> bool result) \<Rightarrow> status_env \<Rightarrow> system_status \<Rightarrow> system_status result" where
  "check_image_updates check env status =
     (if dockerAvailable status then
        try_catch
          (and_then (check_each_image check known_images (0, []))
             (\<lambda>(updatesAvailable, imageStatuses).
                Inr (status\<lparr>imageUpdates :=
                       \<lparr>available = updatesAvailable, lastChecked = Some (st_checked_at env),
                        images = imageStatuses, updates_error = None\<rparr>\<rparr>)))
          (\<lambda>error.
             Inr (status\<lparr>imageUpdates :=
                    (imageUpdates status)\<lparr>updates_error := Some (message error)\<rparr>\<rparr>))
      else Inr status)"

text \<open>
  The whole function, for any implementation \<open>check\<close> of the call of line 2087, and with the
  one the program has.
\<close>

definition getSystemStatus_with ::
  "(string \<Rightarrow> bool result) \<Rightarrow> status_env \<Rightarrow> system_status result" where
  "getSystemStatus_with check env =
     and_then (check_docker env (initial_status (st_now env)))
       (\<lambda>s1. and_then (check_service env s1)
          (\<lambda>s2. and_then (check_container env s2)
             (\<lambda>s3. and_then (check_image_updates check env s3)
                (\<lambda>s4. Inr s4))))"

definition getSystemStatus :: "status_env \<Rightarrow> system_status result" where
  "getSystemStatus env = getSystemStatus_with (isNewDockerImageAvailable (st_shell env)) env"


section \<open>Container introspection\<close>

text \<open>
  \<^verbatim>\<open>getContainerStats()\<close>, lines 2436 to 2597. Numbers are integers, except the uptime in
  hours, a rational; products with the decimal constants of the source are taken exactly
  where the source takes them in double precision.

  The counters found in the logs, \<^verbatim>\<open>realStats\<close>: each property is a number or absent.
\<close>

record real_stats =
  rs_syncLifePoints :: "int option"
  rs_walletLifePoints :: "int option"
  rs_syncLifeTraffic :: "int option"
  rs_bytesIn :: "int option"
  rs_bytesOut :: "int option"
  rs_sessions :: "int option"
  rs_users :: "int option"

definition empty_stats :: real_stats where
  "empty_stats = \<lparr>rs_syncLifePoints = None, rs_walletLifePoints = None, rs_syncLifeTraffic = None,
     rs_bytesIn = None, rs_bytesOut = None, rs_sessions = None, rs_users = None\<rparr>"

text \<open>\<^verbatim>\<open>a || d\<close> on a number or \<^verbatim>\<open>undefined\<close>: zero is falsy.\<close>

definition num_or :: "int option \<Rightarrow> int \<Rightarrow> int" where
  "num_or v d = (case v of None \<Rightarrow> d | Some n \<Rightarrow> if n = 0 then d else n)"

text \<open>
  What the log scanner gets from the regular expression engine and from \<^verbatim>\<open>JSON.parse\<close>,
  which are library code and parameters here: for a line, the outcome of the JSON pattern of
  line 2502 and of parsing its match, and the numbers captured by the three patterns of
  lines 2513 to 2515.
\<close>

datatype json_outcome = NoJsonMatch | JsonThrows | JsonStats real_stats

record line_reader =
  json_of :: "string \<Rightarrow> json_outcome"
  points_of :: "string \<Rightarrow> int option"
  traffic_of :: "string \<Rightarrow> int option"
  sessions_of :: "string \<Rightarrow> int option"

text \<open>Lines 2513 to 2522 for one line.\<close>

definition read_patterns :: "line_reader \<Rightarrow> string \<Rightarrow> real_stats option \<Rightarrow> real_stats option" where
  "read_patterns rd line realStats =
     (if points_of rd line \<noteq> None \<or> traffic_of rd line \<noteq> None \<or> sessions_of rd line \<noteq> None
      then
        (let r0 = (case realStats of None \<Rightarrow> empty_stats | Some r \<Rightarrow> r);
             r1 = (case points_of rd line of
                     None \<Rightarrow> r0 | Some n \<Rightarrow> r0\<lparr>rs_syncLifePoints := Some n\<rparr>);
             r2 = (case traffic_of rd line of
                     None \<Rightarrow> r1 | Some n \<Rightarrow> r1\<lparr>rs_syncLifeTraffic := Some n\<rparr>);
             r3 = (case sessions_of rd line of
                     None \<Rightarrow> r2 | Some n \<Rightarrow> r2\<lparr>rs_sessions := Some n\<rparr>)
         in Some r3)
      else realStats)"

text \<open>The loop of lines 2499 to 2526 over the lines, most recent first.\<close>

fun scan_lines :: "line_reader \<Rightarrow> string list \<Rightarrow> real_stats option \<Rightarrow> real_stats option" where
  "scan_lines rd [] realStats = realStats"
| "scan_lines rd (line # rest) realStats =
     (case json_of rd line of
        JsonThrows \<Rightarrow> scan_lines rd rest realStats
      | JsonStats statsData \<Rightarrow>
          if rs_syncLifePoints statsData \<noteq> None \<or> rs_walletLifePoints statsData \<noteq> None
          then Some statsData
          else scan_lines rd rest (read_patterns rd line realStats)
      | NoJsonMatch \<Rightarrow> scan_lines rd rest (read_patterns rd line realStats))"

text \<open>
  The host as the function meets it: the shell, the hours since the start time printed by
  \<^verbatim>\<open>docker inspect\<close> (\<open>None\<close> when the text is not a date, in which case
  \<^verbatim>\<open>startTime.toISOString()\<close> throws), the line reader, and the values of \<^verbatim>\<open>Math.random()\<close>
  at its five places, lines 2565, 2566, 2574, 2575 and 2579, numbered from 0.
\<close>

record stats_env =
  cs_shell :: shell
  cs_hours_since :: "string \<Rightarrow> rat option"
  cs_reader :: line_reader
  cs_random :: "nat \<Rightarrow> rat"

record container_stats =
  bytesIn :: int
  bytesOut :: int
  bytesInDelta :: int
  bytesOutDelta :: int
  sessions :: int
  users :: int
  syncLifePoints :: int
  syncLifePointsDelta :: int
  syncLifeTraffic :: int
  walletLifePoints :: int
  availability :: int
  reliability :: int
  efficiency :: int
  proxyConnectionState :: string
  uptimeHours :: rat
  isEarningPoints :: bool
  hasRealStats :: bool

text \<open>Lines 2443 to 2457: the first of the two names that \<^verbatim>\<open>docker ps\<close> reports.\<close>

fun find_container :: "shell \<Rightarrow> string list \<Rightarrow> string option" where
  "find_container sh [] = None"
| "find_container sh (name # rest) =
     (case sh (docker_ps_cmd name) of
        Inl e \<Rightarrow> find_container sh rest
      | Inr psOutput \<Rightarrow> if str_includes psOutput name then Some name else find_container sh rest)"

definition containerNames :: "string list" where
  "containerNames = [''synchronizer-cli'', ''synchronizer-nightly'']"

text \<open>Lines 2481 to 2530: the earning flag and the counters read from the last 100 log lines.\<close>

definition read_logs :: "stats_env \<Rightarrow> string \<Rightarrow> bool \<times> real_stats option" where
  "read_logs env containerName =
     (case cs_shell env (''docker logs '' @ containerName @ '' --tail 100'') of
        Inl logError \<Rightarrow> (False, None)
      | Inr logsOutput \<Rightarrow>
          (str_includes logsOutput ''proxy-connected'' \<or>
           str_includes logsOutput ''registered'' \<or>
           str_includes logsOutput ''session'' \<or>
           str_includes logsOutput ''traffic'' \<or>
           str_includes logsOutput ''stats'',
           scan_lines (cs_reader env) (rev (str_split CHR 0x0A logsOutput)) None))"

text \<open>Lines 2533 to 2549.\<close>

definition probe_exec :: "stats_env \<Rightarrow> string \<Rightarrow> bool \<Rightarrow> bool" where
  "probe_exec env containerName isEarning =
     (case cs_shell env (''docker exec '' @ containerName @ '' ps aux'') of
        Inl execError \<Rightarrow> isEarning
      | Inr execOutput \<Rightarrow> if str_includes execOutput ''node'' then True else isEarning)"

text \<open>Lines 2552 to 2591: the object returned.\<close>

definition build_stats :: "stats_env \<Rightarrow> rat \<Rightarrow> bool \<Rightarrow> real_stats option \<Rightarrow> container_stats" where
  "build_stats env hours isEarning realStats =
     (let basePoints = (case realStats of
            Some r \<Rightarrow> num_or (rs_syncLifePoints r) (num_or (rs_walletLifePoints r) 0)
          | None \<Rightarrow> if isEarning then \<lfloor>hours * 10\<rfloor> else 0);
          baseTraffic = (case realStats of
            Some r \<Rightarrow> num_or (rs_syncLifeTraffic r)
                        (case (rs_bytesIn r, rs_bytesOut r) of
                           (Some a, Some b) \<Rightarrow> num_or (Some (a + b)) 0
                         | _ \<Rightarrow> 0)
          | None \<Rightarrow> if isEarning then \<lfloor>hours * 1024 * 1024 * 50\<rfloor> else 0);
          sessions' = (case realStats of
            Some r \<Rightarrow> num_or (rs_sessions r) 0
          | None \<Rightarrow> if isEarning then \<lfloor>cs_random env 0 * 5\<rfloor> + 1 else 0);
          users' = (case realStats of
            Some r \<Rightarrow> num_or (rs_users r) 0
          | None \<Rightarrow> if isEarning then \<lfloor>cs_random env 1 * 3\<rfloor> + 1 else 0)
      in \<lparr>bytesIn = \<lfloor>of_int baseTraffic * (6 / 10 :: rat)\<rfloor>,
          bytesOut = \<lfloor>of_int baseTraffic * (4 / 10 :: rat)\<rfloor>,
          bytesInDelta = (if isEarning then \<lfloor>cs_random env 2 * 1000\<rfloor> else 0),
          bytesOutDelta = (if isEarning then \<lfloor>cs_random env 3 * 500\<rfloor> else 0),
          sessions = sessions',
          users = users',
          syncLifePoints = basePoints,
          syncLifePointsDelta = (if isEarning then \<lfloor>cs_random env 4 * 5\<rfloor> else 0),
          syncLifeTraffic = baseTraffic,
          walletLifePoints =
            num_or (case realStats of None \<Rightarrow> None | Some r \<Rightarrow> rs_walletLifePoints r)
              (basePoints * 2),
          availability = (if isEarning then 0 else 2),
          reliability = (if isEarning then (if hours > 24 then 0 else 1) else 2),
          efficiency = (if isEarning then (if baseTraffic > 1024 * 1024 * 100 then 0 else 1) else 2),
          proxyConnectionState = (if isEarning then ''CONNECTED'' else ''UNAVAILABLE''),
          uptimeHours = hours,
          isEarningPoints = isEarning,
          hasRealStats = (realStats \<noteq> None)\<rparr>)"

text \<open>
  The function: \<open>Inr None\<close> is the returned \<^verbatim>\<open>null\<close>. The outer \<^verbatim>\<open>catch\<close> of line 2593
  turns a throwing \<^verbatim>\<open>docker inspect\<close> and an invalid start time into \<^verbatim>\<open>null\<close>.
\<close>

definition getContainerStats :: "stats_env \<Rightarrow> container_stats option result" where
  "getContainerStats env =
     try_catch
       (case find_container (cs_shell env) containerNames of
          None \<Rightarrow> Inr None
        | Some containerName \<Rightarrow>
            and_then
              (cs_shell env (''docker inspect '' @ containerName @ '' --format \"{{.State.StartedAt}}\"''))
              (\<lambda>inspectOutput.
                 (let (logEarning, realStats) = read_logs env containerName;
                      isEarning = (if realStats = None
                                   then probe_exec env containerName logEarning
                                   else logEarning)
                  in case cs_hours_since env (trim inspectOutput) of
                       None \<Rightarrow> Inl (Error ''Invalid time value'')
                     | Some hours \<Rightarrow> Inr (Some (build_stats env hours isEarning realStats)))))
       (\<lambda>error. Inr None)"


section \<open>The performance view\<close>

text \<open>
  \<^verbatim>\<open>getPerformanceData(config)\<close>, lines 2184 to 2311. \<^verbatim>\<open>Math.round(x)\<close> is the integer
  nearest to \<open>x\<close>, the greater one at a tie. The score is computed over the rationals. For
  every triple of factors the double precision product of the source rounds to the same
  integer: the products that fall on a tie, such as 12.5, are exact in binary, and the
  others lie more than a tenth away from one.
\<close>

definition js_round :: "rat \<Rightarrow> int" where
  "js_round x = \<lfloor>x + 1 / 2\<rfloor>"

record performance =
  totalTraffic :: int
  perf_sessions :: int
  inTraffic :: int
  outTraffic :: int
  perf_users :: int

record qos =
  score :: int
  qos_reliability :: int
  qos_availability :: int
  qos_efficiency :: int

record performance_view =
  perf_timestamp :: string
  perf :: performance
  perf_qos :: qos

text \<open>Line 2219: \<^verbatim>\<open>containerStats.availability || 2\<close>, and the same for the other two.\<close>

definition indicator_or_poor :: "int \<Rightarrow> int" where
  "indicator_or_poor v = (if v = 0 then 2 else v)"

text \<open>Lines 2224 and 2226: \<^verbatim>\<open>factors[i] || 0\<close> with \<^verbatim>\<open>factors = [1, 0.8, 0.5]\<close>.\<close>

definition factors :: "rat list" where
  "factors = [1, 8 / 10, 5 / 10]"

definition factor_at :: "int \<Rightarrow> rat" where
  "factor_at i =
     (if 0 \<le> i \<and> i < int (length factors)
      then (if factors ! nat i = 0 then 0 else factors ! nat i)
      else 0)"

text \<open>Lines 2233 to 2235.\<close>

definition display_percent :: "int \<Rightarrow> int" where
  "display_percent i = (if i = 0 then 100 else if i = 1 then 80 else 20)"

text \<open>Lines 2210 to 2236: the view computed from the container's counters.\<close>

definition real_performance :: "container_stats \<Rightarrow> performance" where
  "real_performance containerStats =
     \<lparr>totalTraffic = num_or (Some (bytesIn containerStats)) 0 + num_or (Some (bytesOut containerStats)) 0,
      perf_sessions = num_or (Some (sessions containerStats)) 0,
      inTraffic = num_or (Some (bytesInDelta containerStats)) 0,
      outTraffic = num_or (Some (bytesOutDelta containerStats)) 0,
      perf_users = num_or (Some (users containerStats)) 0\<rparr>"

definition real_qos :: "container_stats \<Rightarrow> qos" where
  "real_qos containerStats =
     (let availability' = indicator_or_poor (availability containerStats);
          reliability' = indicator_or_poor (reliability containerStats);
          efficiency' = indicator_or_poor (efficiency containerStats);
          qosScore0 = (100 :: rat);
          qosScore1 = qosScore0 * factor_at availability';
          qosScore2 = qosScore1 * factor_at reliability';
          qosScore3 = qosScore2 * factor_at efficiency';
          qosScore = js_round (qosScore3 / 5) * 5
      in \<lparr>score = qosScore,
          qos_reliability = display_percent reliability',
          qos_availability = display_percent availability',
          qos_efficiency = display_percent efficiency'\<rparr>)"

text \<open>
  Lines 2242 to 2260, and again 2266 to 2284: the placeholder values. \<open>rnd\<close> gives the eight
  values of \<^verbatim>\<open>Math.random()\<close> in the order they are drawn; \<^verbatim>\<open>randomFactor()\<close> is
  \<^verbatim>\<open>0.8 + Math.random() * 0.4\<close>.
\<close>

definition randomFactor :: "rat \<Rightarrow> rat" where
  "randomFactor r = 8 / 10 + r * (4 / 10)"

definition fallback_performance :: "(nat \<Rightarrow> rat) \<Rightarrow> performance" where
  "fallback_performance rnd =
     \<lparr>totalTraffic = \<lfloor>1024 * 1024 * 150 * randomFactor (rnd 0)\<rfloor>,
      perf_sessions = \<lfloor>12 * randomFactor (rnd 1)\<rfloor>,
      inTraffic = \<lfloor>512 * randomFactor (rnd 2)\<rfloor>,
      outTraffic = \<lfloor>256 * randomFactor (rnd 3)\<rfloor>,
      perf_users = \<lfloor>3 * randomFactor (rnd 4)\<rfloor>\<rparr>"

definition fallback_qos :: "(nat \<Rightarrow> rat) \<Rightarrow> qos" where
  "fallback_qos rnd =
     (let reliability' = 85 + \<lfloor>rnd 5 * 10\<rfloor>;
          availability' = 90 + \<lfloor>rnd 6 * 8\<rfloor>;
          efficiency' = 75 + \<lfloor>rnd 7 * 20\<rfloor>
      in \<lparr>score = \<lfloor>(of_int (reliability' + availability' + efficiency') :: rat) / 3\<rfloor>,
          qos_reliability = reliability',
          qos_availability = availability',
          qos_efficiency = efficiency'\<rparr>)"

text \<open>Lines 2287 to 2303: the service is not running, so \<^verbatim>\<open>isRunning\<close> is false there.\<close>

definition stopped_qos :: "bool \<Rightarrow> qos" where
  "stopped_qos docker =
     (let reliability' = (30 :: int);
          availability' = (25 :: int);
          efficiency' = (20 :: int);
          r = (if \<not> docker then max 0 (reliability' - 40) else reliability');
          a = (if \<not> docker then max 0 (availability' - 50) else availability');
          e = (if \<not> docker then max 0 (efficiency' - 60) else efficiency')
      in \<lparr>score = \<lfloor>(of_int (r + a + e) :: rat) / 3\<rfloor>,
          qos_reliability = r, qos_availability = a, qos_efficiency = e\<rparr>)"

definition zero_performance :: performance where
  "zero_performance = \<lparr>totalTraffic = 0, perf_sessions = 0, inTraffic = 0, outTraffic = 0, perf_users = 0\<rparr>"

text \<open>
  The function, on the outcomes of its two awaited calls: the status of line 2185 and the
  container counters of line 2206, asked for only when the service is running.
\<close>

definition performance_from ::
  "string \<Rightarrow> (nat \<Rightarrow> rat) \<Rightarrow> system_status result \<Rightarrow> container_stats option result
     \<Rightarrow> performance_view result" where
  "performance_from now rnd status_result stats_result =
     and_then status_result
       (\<lambda>status.
          (let isRunning = (serviceStatus status = ''running'')
           in if isRunning then
                try_catch
                  (and_then stats_result
                     (\<lambda>containerStats.
                        case containerStats of
                          Some cs \<Rightarrow>
                            Inr \<lparr>perf_timestamp = now, perf = real_performance cs,
                                 perf_qos = real_qos cs\<rparr>
                        | None \<Rightarrow>
                            Inr \<lparr>perf_timestamp = now, perf = fallback_performance rnd,
                                 perf_qos = fallback_qos rnd\<rparr>))
                  (\<lambda>error.
                     Inr \<lparr>perf_timestamp = now, perf = fallback_performance rnd,
                          perf_qos = fallback_qos rnd\<rparr>)
              else
                Inr \<lparr>perf_timestamp = now, perf = zero_performance,
                     perf_qos = stopped_qos (dockerAvailable status)\<rparr>))"

text \<open>The function on a host.\<close>

record telemetry_env =
  tm_now :: string
  tm_random :: "nat \<Rightarrow> rat"
  tm_status :: status_env
  tm_stats :: stats_env

definition getPerformanceData :: "telemetry_env \<Rightarrow> performance_view result" where
  "getPerformanceData env =
     performance_from (tm_now env) (tm_random env)
       (getSystemStatus (tm_status env)) (getContainerStats (tm_stats env))"


section \<open>The points view\<close>

text \<open>
  \<^verbatim>\<open>fetchWalletLifetimePoints(key, wallet, config)\<close>, lines 2914 to 3000. \<^verbatim>\<open>fetch(url)\<close>
  either throws or resolves to a response, whose body read as text or as JSON may throw in
  turn. The wallet record of the registry holds numbers, each possibly absent. Credits are
  whole numbers in the model.
\<close>

record wallet_json =
  serviceCredits :: "int option"
  lastWithdrawnCredits :: "int option"
  wallet_lastUpdated :: "int option"

record fetch_response =
  resp_ok :: bool
  resp_status :: nat
  resp_text :: "string result"
  resp_json :: "wallet_json result"

type_synonym http = "string \<Rightarrow> fetch_response result"

record api_data =
  lifetimePoints :: int
  lastWithdrawn :: int
  lastUpdated :: int
  dailyPoints :: int
  weeklyPoints :: int
  monthlyPoints :: int
  data_source :: string

datatype registry_result = Success api_data | Failure string

text \<open>A number in a template literal: its decimal digits.\<close>

fun show_nat :: "nat \<Rightarrow> string" where
  "show_nat n =
     (if n < 10 then [char_of (48 + n)]
      else show_nat (n div 10) @ [char_of (48 + n mod 10)])"

definition wallet_url :: "string \<Rightarrow> string" where
  "wallet_url address = ''https://api.multisynq.io/wallet/'' @ address @ ''/read''"

definition depin_wallet_url :: "string \<Rightarrow> string" where
  "depin_wallet_url address = ''https://api.multisynq.io/depin/wallet/'' @ address @ ''/read''"

text \<open>Lines 2962 to 2974 and 2981 to 2993; \<open>now_ms\<close> is \<^verbatim>\<open>Date.now()\<close>.\<close>

definition to_api_data :: "int \<Rightarrow> string \<Rightarrow> wallet_json \<Rightarrow> api_data" where
  "to_api_data now_ms src d =
     \<lparr>lifetimePoints = num_or (serviceCredits d) 0,
      lastWithdrawn = num_or (lastWithdrawnCredits d) 0,
      lastUpdated = num_or (wallet_lastUpdated d) now_ms,
      dailyPoints = \<lfloor>of_int (num_or (serviceCredits d) 0) * (5 / 100 :: rat)\<rfloor>,
      weeklyPoints = \<lfloor>of_int (num_or (serviceCredits d) 0) * (2 / 10 :: rat)\<rfloor>,
      monthlyPoints = \<lfloor>of_int (num_or (serviceCredits d) 0) * (5 / 10 :: rat)\<rfloor>,
      data_source = src\<rparr>"

definition fetchWalletLifetimePoints ::
  "http \<Rightarrow> int \<Rightarrow> string option \<Rightarrow> string option \<Rightarrow> registry_result result" where
  "fetchWalletLifetimePoints fetch now_ms key' wallet' =
     (case wallet' of
        None \<Rightarrow> Inr (Failure ''Missing key or wallet'')
      | Some address \<Rightarrow>
          if \<not> truthy key' \<or> address = [] then Inr (Failure ''Missing key or wallet'')
          else
            try_catch
              (and_then (fetch (wallet_url address))
                 (\<lambda>response.
                    if \<not> resp_ok response then
                      and_then (fetch (depin_wallet_url address))
                        (\<lambda>depinResponse.
                           if \<not> resp_ok depinResponse then
                             and_then (resp_text response)
                               (\<lambda>errorText.
                                  Inr (Failure
                                    (''API error ('' @ show_nat (resp_status response) @ ''): '' @
                                     (if errorText = [] then ''Wallet not found'' else errorText))))
                           else
                             and_then (resp_json depinResponse)
                               (\<lambda>depinData.
                                  Inr (Success
                                    (to_api_data now_ms ''depin_registry_api'' depinData))))
                    else
                      and_then (resp_json response)
                        (\<lambda>data. Inr (Success (to_api_data now_ms ''registry_api'' data)))))
              (\<lambda>error. Inr (Failure (''Error fetching points: '' @ message error))))"

text \<open>
  \<^verbatim>\<open>getPointsData(config)\<close>, lines 2313 to 2434. The rank is a number or the text
  \<^verbatim>\<open>'N/A'\<close>. A property that an object returned does not have is \<open>None\<close>. Two
  decorations of the results are left out: \<^verbatim>\<open>apiExtras\<close> and the formatted
  \<^verbatim>\<open>containerUptime\<close>.
\<close>

datatype rank_value = NotAvailable | Rank int

record points =
  total_points :: int
  daily :: int
  weekly :: int
  monthly :: int
  streak :: int
  rank :: rank_value
  multiplier :: string

record points_view =
  pv_timestamp :: string
  points :: points
  error :: "string option"
  fallback :: "bool option"
  source :: "string option"
  isEarning :: "bool option"
  connectionState :: "string option"

definition zero_points :: points where
  "zero_points = \<lparr>total_points = 0, daily = 0, weekly = 0, monthly = 0, streak = 0,
     rank = NotAvailable, multiplier = ''1.0''\<rparr>"

text \<open>Lines 2342 to 2353. The registry data has no streak, rank or multiplier.\<close>

definition registry_points :: "string \<Rightarrow> api_data \<Rightarrow> points_view" where
  "registry_points now apiData =
     \<lparr>pv_timestamp = now,
      points = \<lparr>total_points = num_or (Some (lifetimePoints apiData)) 0,
                daily = num_or (Some (dailyPoints apiData)) 0,
                weekly = num_or (Some (weeklyPoints apiData)) 0,
                monthly = num_or (Some (monthlyPoints apiData)) 0,
                streak = 0,
                rank = NotAvailable,
                multiplier = ''1.0''\<rparr>,
      error = None,
      fallback = None,
      source = Some (or_else (Some (data_source apiData)) ''registry_api''),
      isEarning = None,
      connectionState = None\<rparr>"

text \<open>
  Lines 2393 to 2414; \<open>rnd 0\<close> and \<open>rnd 1\<close> are the values of \<^verbatim>\<open>Math.random()\<close> for the
  streak and the rank.
\<close>

definition container_points :: "string \<Rightarrow> (nat \<Rightarrow> rat) \<Rightarrow> container_stats \<Rightarrow> points_view" where
  "container_points now rnd containerStats =
     (let walletLifePoints' = num_or (Some (walletLifePoints containerStats)) 0;
          currentPoints = (if isEarningPoints containerStats
                           then \<lfloor>uptimeHours containerStats\<rfloor> else 0)
      in \<lparr>pv_timestamp = now,
          points = \<lparr>total_points = walletLifePoints',
                    daily = currentPoints,
                    weekly = \<lfloor>of_int walletLifePoints' * (1 / 10 :: rat)\<rfloor>,
                    monthly = \<lfloor>of_int walletLifePoints' * (3 / 10 :: rat)\<rfloor>,
                    streak = (if walletLifePoints' > 100 then \<lfloor>rnd 0 * 7\<rfloor> + 1 else 0),
                    rank = (if walletLifePoints' > 1000 then Rank (\<lfloor>rnd 1 * 10000\<rfloor> + 1)
                            else NotAvailable),
                    multiplier = (if isEarningPoints containerStats then ''1.0'' else ''0.0'')\<rparr>,
          error = None,
          fallback = None,
          source = Some ''container_stats'',
          isEarning = Some (isEarningPoints containerStats),
          connectionState = Some (proxyConnectionState containerStats)\<rparr>)"

text \<open>Lines 2375 to 2388 and 2419 to 2432.\<close>

definition fallback_points :: "string \<Rightarrow> string \<Rightarrow> points_view" where
  "fallback_points now msg =
     \<lparr>pv_timestamp = now, points = zero_points, error = Some msg, fallback = Some True,
      source = None, isEarning = None, connectionState = None\<rparr>"

text \<open>Lines 2315 to 2327.\<close>

definition missing_config_points :: "string \<Rightarrow> points_view" where
  "missing_config_points now =
     \<lparr>pv_timestamp = now, points = zero_points,
      error = Some ''Missing Synq key or wallet address'', fallback = None,
      source = None, isEarning = None, connectionState = None\<rparr>"

text \<open>
  The function, on the outcomes of its awaited calls: the registry query of line 2332 and
  the container counters of line 2372.
\<close>

definition points_from ::
  "string \<Rightarrow> (nat \<Rightarrow> rat) \<Rightarrow> config \<Rightarrow> registry_result result
     \<Rightarrow> container_stats option result \<Rightarrow> points_view result" where
  "points_from now rnd config registry_outcome stats_outcome =
     (if \<not> truthy (key config) \<or> \<not> truthy (wallet config) then Inr (missing_config_points now)
      else
        (case try_catch
                (and_then registry_outcome
                   (\<lambda>registryData.
                      case registryData of
                        Success apiData \<Rightarrow> Inr (Some (registry_points now apiData))
                      | Failure msg \<Rightarrow> Inr None))
                (\<lambda>error. Inr None) of
           Inl e \<Rightarrow> Inl e
         | Inr (Some view) \<Rightarrow> Inr view
         | Inr None \<Rightarrow>
             try_catch
               (and_then stats_outcome
                  (\<lambda>containerStats.
                     case containerStats of
                       None \<Rightarrow>
                         Inr (fallback_points now
                                ''Synchronizer container not running - start it first'')
                     | Some cs \<Rightarrow> Inr (container_points now rnd cs)))
               (\<lambda>error. Inr (fallback_points now (''Container Error: '' @ message error)))))"

text \<open>The function on a host: \<open>pt_http\<close> is the network and \<open>pt_now_ms\<close> is \<^verbatim>\<open>Date.now()\<close>.\<close>

record points_env =
  pt_now :: string
  pt_now_ms :: int
  pt_random :: "nat \<Rightarrow> rat"
  pt_http :: http
  pt_stats :: stats_env

definition getPointsData :: "config \<Rightarrow> points_env \<Rightarrow> points_view result" where
  "getPointsData config env =
     points_from (pt_now env) (pt_random env) config
       (fetchWalletLifetimePoints (pt_http env) (pt_now_ms env) (key config) (wallet config))
       (getContainerStats (pt_stats env))"


section \<open>Example hosts\<close>

text \<open>
  Three hosts on which the unit is active: one where no \<^verbatim>\<open>docker\<close> command succeeds, one
  with a container that is up but whose logs and processes cannot be read, one with a
  container whose log shows the proxy connection. The log reader finds no counters.
\<close>

definition host_without_container :: shell where
  "host_without_container =
     (\<lambda>cmd. if cmd = systemctl_cmd
            then Inr ''   Active: active (running) since Mon 2024-01-01 10:00:00 UTC; 2h ago''
            else Inl (Error ''command failed''))"


definition host_busy_container :: shell where
  "host_busy_container =
     (\<lambda>cmd. if cmd = systemctl_cmd
            then Inr ''   Active: active (running) since Mon 2024-01-01 10:00:00 UTC; 2h ago''
            else if cmd = docker_ps_cmd ''synchronizer-cli'' then Inr ''synchronizer-cli''
            else if cmd = ''docker inspect synchronizer-cli --format \"{{.State.StartedAt}}\"''
            then Inr ''2024-01-01T10:00:00Z''
            else if cmd = ''docker logs synchronizer-cli --tail 100'' then Inr ''proxy-connected''
            else Inl (Error ''command failed''))"

definition plain_reader :: line_reader where
  "plain_reader = \<lparr>json_of = (\<lambda>l. NoJsonMatch), points_of = (\<lambda>l. None),
     traffic_of = (\<lambda>l. None), sessions_of = (\<lambda>l. None)\<rparr>"

definition telemetry_on :: "shell \<Rightarrow> rat \<Rightarrow> telemetry_env" where
  "telemetry_on sh hours =
     \<lparr>tm_now = ''t0'', tm_random = (\<lambda>i. 0),
      tm_status = \<lparr>st_now = ''t0'', st_checked_at = ''t1'', st_shell = sh,
                   st_service_file_exists = True\<rparr>,
      tm_stats = \<lparr>cs_shell = sh, cs_hours_since = (\<lambda>s. Some hours), cs_reader = plain_reader,
                  cs_random = (\<lambda>i. 0)\<rparr>\<rparr>"


text \<open>
  A registry that answers every request with 404 and an empty body, and a host for the points
  view made of a network and a shell.
\<close>

definition registry_down :: http where
  "registry_down =
     (\<lambda>url. Inr \<lparr>resp_ok = False, resp_status = 404, resp_text = Inr [],
                 resp_json = Inl (Error ''Unexpected end of JSON input'')\<rparr>)"

definition points_on :: "http \<Rightarrow> shell \<Rightarrow> points_env" where
  "points_on net sh =
     \<lparr>pt_now = ''t0'', pt_now_ms = 0, pt_random = (\<lambda>i. 0), pt_http = net,
      pt_stats = \<lparr>cs_shell = sh, cs_hours_since = (\<lambda>s. Some 2), cs_reader = plain_reader,
                  cs_random = (\<lambda>i. 0)\<rparr>\<rparr>"


section \<open>Properties of the image freshness check\<close>

lemma trim_empty_iff: "trim s = [] \<longleftrightarrow> (\<forall>c \<in> set s. is_space c)"
proof
  assume "trim s = []"
  then have "\<forall>c \<in> set (dropWhile is_space s). is_space c"
    by (simp add: trim_def)
  then have "dropWhile is_space s = []"
    by (metis hd_dropWhile hd_in_set)
  then show "\<forall>c \<in> set s. is_space c"
    by simp
next
  assume "\<forall>c \<in> set s. is_space c"
  then show "trim s = []"
    by (auto simp: trim_def dest: set_dropWhileD)
qed

lemma docker_images_output_blank:
  assumes "wf_store store"
  shows "trim (docker_images_output store ref) = [] \<longleftrightarrow> \<not> has_local_image store ref"
proof
  assume blank: "trim (docker_images_output store ref) = []"
  show "\<not> has_local_image store ref"
  proof
    assume "has_local_image store ref"
    then obtain i where mem: "(ref, i) \<in> set store"
      by (auto simp: has_local_image_def)
    with assms have "wf_image_id i"
      by (auto simp: wf_store_def)
    then obtain c where c: "c \<in> set i" "\<not> is_space c"
      by (cases i) (auto simp: wf_image_id_def)
    from mem c(1) have "c \<in> set (docker_images_output store ref)"
      by (force simp: docker_images_output_def)
    with blank c(2) show False
      by (simp add: trim_empty_iff)
  qed
next
  assume "\<not> has_local_image store ref"
  then have "filter (\<lambda>(r, i). r = ref) store = []"
    by (auto simp: has_local_image_def filter_empty_conv)
  then show "trim (docker_images_output store ref) = []"
    by (simp add: docker_images_output_def trim_def)
qed

text \<open>
  C5. The freshness check asks for a pull whenever the local inspection throws and whenever
  it prints nothing; it asks for none whenever it prints an image id. Against an image store:
  it returns \<open>true\<close> exactly when no local image carries the reference, whatever the ids
  (digests) of the stored images are, and it never throws.
\<close>

theorem needsPull_local_image:
  "(sh (docker_images_cmd img) = Inl e \<longrightarrow> isNewDockerImageAvailable sh img = Inr True) \<and>
   (sh (docker_images_cmd img) = Inr out \<longrightarrow>
      isNewDockerImageAvailable sh img = Inr (trim out = [])) \<and>
   (wf_store store \<and> sh (docker_images_cmd img) = Inr (docker_images_output store img) \<longrightarrow>
      isNewDockerImageAvailable sh img = Inr (\<not> has_local_image store img))"
  by (auto simp: isNewDockerImageAvailable_def isNewDockerImageAvailable_inner_def
      docker_images_output_blank)

theorem needsPull_local_image_witness:
  "isNewDockerImageAvailable (\<lambda>cmd. Inl (Error ''Cannot connect to the Docker daemon''))
     ''cdrakep/synqchronizer:latest'' = Inr True \<and>
   wf_store [(''cdrakep/synqchronizer:latest'', ''0123456789ab'')] \<and>
   isNewDockerImageAvailable
     (\<lambda>cmd. Inr (docker_images_output [(''cdrakep/synqchronizer:latest'', ''0123456789ab'')]
        ''cdrakep/synqchronizer:latest''))
     ''cdrakep/synqchronizer:latest'' = Inr False \<and>
   isNewDockerImageAvailable
     (\<lambda>cmd. Inr (docker_images_output [(''cdrakep/synqchronizer:latest'', ''0123456789ab'')]
        ''cdrakep/synqchronizer-test-fixed:latest''))
     ''cdrakep/synqchronizer-test-fixed:latest'' = Inr True"
proof -
  let ?store = "[(''cdrakep/synqchronizer:latest'', ''0123456789ab'')]"
  have wf: "wf_store ?store"
    by (simp add: wf_store_def wf_image_id_def is_space_def)
  have a: "isNewDockerImageAvailable (\<lambda>cmd. Inl (Error ''Cannot connect to the Docker daemon''))
     ''cdrakep/synqchronizer:latest'' = Inr True"
    using needsPull_local_image
      [of "\<lambda>cmd. Inl (Error ''Cannot connect to the Docker daemon'')"
          "''cdrakep/synqchronizer:latest''" "Error ''Cannot connect to the Docker daemon''"]
    by simp
  have b: "isNewDockerImageAvailable
     (\<lambda>cmd. Inr (docker_images_output ?store ''cdrakep/synqchronizer:latest''))
     ''cdrakep/synqchronizer:latest'' = Inr (\<not> has_local_image ?store ''cdrakep/synqchronizer:latest'')"
    using wf needsPull_local_image
      [of "\<lambda>cmd. Inr (docker_images_output ?store ''cdrakep/synqchronizer:latest'')"
          "''cdrakep/synqchronizer:latest''" _ _ ?store]
    by simp
  have c: "isNewDockerImageAvailable
     (\<lambda>cmd. Inr (docker_images_output ?store ''cdrakep/synqchronizer-test-fixed:latest''))
     ''cdrakep/synqchronizer-test-fixed:latest'' =
       Inr (\<not> has_local_image ?store ''cdrakep/synqchronizer-test-fixed:latest'')"
    using wf needsPull_local_image
      [of "\<lambda>cmd. Inr (docker_images_output ?store ''cdrakep/synqchronizer-test-fixed:latest'')"
          "''cdrakep/synqchronizer-test-fixed:latest''" _ _ ?store]
    by simp
  from a b c wf show ?thesis
    by (simp add: has_local_image_def)
qed

section \<open>Properties of the dashboard authentication\<close>



text \<open>
  C10. Without a dashboard password the middleware calls \<^verbatim>\<open>next()\<close> for every request,
  whatever its Authorization header, and the page is rendered with the real key and wallet:
  the locals \<open>maskedKey\<close> and \<open>maskedWallet\<close> are the configured values, and so are the
  key and wallet interpolated in the page.
\<close>

theorem no_password_open_access:
  assumes "\<not> truthy (dashboardPassword config)"
  shows "authenticateRequest config req = Next False \<and>
         gui_root config req = Page (generateDashboardHTML config False) \<and>
         showSensitiveData (generateDashboardHTML config False) \<and>
         maskedKey (generateDashboardHTML config False) = key config \<and>
         maskedWallet (generateDashboardHTML config False) = wallet config \<and>
         (truthy (key config) \<longrightarrow>
            Some (synq_key_full_span (generateDashboardHTML config False)) = key config) \<and>
         (truthy (wallet config) \<longrightarrow>
            Some (wallet_span (generateDashboardHTML config False)) = wallet config)"
  using assms
  by (auto simp: authenticateRequest_def gui_root_def generateDashboardHTML_def truthy_def
      or_else_def split: option.splits)

theorem no_password_open_access_witness:
  "\<not> truthy (dashboardPassword (empty_config\<lparr>key := Some ''k1'', wallet := Some ''0xAB''\<rparr>)) \<and>
   authenticateRequest (empty_config\<lparr>key := Some ''k1'', wallet := Some ''0xAB''\<rparr>)
     \<lparr>authorization = Some ''Bearer x''\<rparr> = Next False \<and>
   synq_key_full_span (generateDashboardHTML
     (empty_config\<lparr>key := Some ''k1'', wallet := Some ''0xAB''\<rparr>) False) = ''k1'' \<and>
   wallet_span (generateDashboardHTML
     (empty_config\<lparr>key := Some ''k1'', wallet := Some ''0xAB''\<rparr>) False) = ''0xAB''"
proof -
  let ?c = "empty_config\<lparr>key := Some ''k1'', wallet := Some ''0xAB''\<rparr>"
  have h: "\<not> truthy (dashboardPassword ?c)"
    by (simp add: empty_config_def truthy_def)
  from no_password_open_access [OF h, of "\<lparr>authorization = Some ''Bearer x''\<rparr>"] h
  show ?thesis
    by (simp add: empty_config_def truthy_def)
qed










section \<open>Properties of the container start\<close>

text \<open>
  C6. A configuration that has a key but was written on another host is refused: the run
  issues no effect at all, so no container-runtime command, and exits with code 1.
\<close>

theorem foreign_config_refused:
  assumes "truthy (key config)" and "hostname config \<noteq> Some (os_hostname h)"
  shows "effects (start version config h env) = [] \<and>
         exit_code (start version config h env) = 1 \<and>
         (\<forall>e \<in> set (effects (start version config h env)). \<not> is_runtime_command e)"
  using assms by (simp add: start_def)

theorem foreign_config_refused_witness:
  "truthy (key (empty_config\<lparr>key := Some ''k'', hostname := Some ''alpha''\<rparr>)) \<and>
   hostname (empty_config\<lparr>key := Some ''k'', hostname := Some ''alpha''\<rparr>)
     \<noteq> Some (os_hostname \<lparr>os_hostname = ''beta'', os_arch = ''x64'', os_platform = ''linux''\<rparr>) \<and>
   start ''1.0.0'' (empty_config\<lparr>key := Some ''k'', hostname := Some ''alpha''\<rparr>)
     \<lparr>os_hostname = ''beta'', os_arch = ''x64'', os_platform = ''linux''\<rparr>
     \<lparr>env_shell = (\<lambda>cmd. Inr []), env_install_answer = True, env_shell_installed = (\<lambda>cmd. Inr []),
      env_logs_exit = 0, env_run_outcome = Exited 0\<rparr>
     = \<lparr>effects = [], exit_code = 1\<rparr>"
proof -
  let ?c = "empty_config\<lparr>key := Some ''k'', hostname := Some ''alpha''\<rparr>"
  let ?h = "\<lparr>os_hostname = ''beta'', os_arch = ''x64'', os_platform = ''linux''\<rparr>"
  have k: "truthy (key ?c)"
    by (simp add: truthy_def)
  have f: "hostname ?c \<noteq> Some (os_hostname ?h)"
    by simp
  from foreign_config_refused [OF k f, of "''1.0.0''"
      "\<lparr>env_shell = (\<lambda>cmd. Inr []), env_install_answer = True,
        env_shell_installed = (\<lambda>cmd. Inr []), env_logs_exit = 0, env_run_outcome = Exited 0\<rparr>"] k f
  show ?thesis
    by simp
qed

text \<open>
  C7. The argument vector of \<^verbatim>\<open>docker run\<close> is the nine fixed arguments, then the endpoint
  (the configured one, or the default), the sync name, the launcher identity and the key, then
  the wallet pair and the account pair, each present exactly when its field is a non-empty
  string, and then with that string as its value. The service installer builds the same
  list, and the only other process \<^verbatim>\<open>start\<close> spawns is the log follower.
\<close>

theorem docker_run_argv:
  "start_args version config h =
     map Some [''run'', ''--rm'', ''--name'', ''synchronizer-cli'', ''--pull'', ''always'',
               ''--platform'', dockerPlatform h, ''cdrakep/synqchronizer:latest''] @
     [Some ''--depin'', Some (or_else (depin config) ''wss://api.multisynq.io/depin''),
      Some ''--sync-name'', syncHash config,
      Some ''--launcher'', Some (launcherWithVersion version),
      Some ''--key'', key config] @
     (case wallet config of
        None \<Rightarrow> []
      | Some w \<Rightarrow> if w = [] then [] else [Some ''--wallet'', Some w]) @
     (case account config of
        None \<Rightarrow> []
      | Some a \<Rightarrow> if a = [] then [] else [Some ''--account'', Some a]) \<and>
   installService_dockerArgs version config h = start_args version config h \<and>
   (\<forall>cmd args. SpawnProc cmd args \<in> set (effects (start version config h env)) \<longrightarrow>
      cmd = ''docker'' \<and>
      (args = [Some ''logs'', Some ''-f'', Some ''synchronizer-cli''] \<or>
       args = start_args version config h))"
proof (intro conjI)
  show "start_args version config h =
     map Some [''run'', ''--rm'', ''--name'', ''synchronizer-cli'', ''--pull'', ''always'',
               ''--platform'', dockerPlatform h, ''cdrakep/synqchronizer:latest''] @
     [Some ''--depin'', Some (or_else (depin config) ''wss://api.multisynq.io/depin''),
      Some ''--sync-name'', syncHash config,
      Some ''--launcher'', Some (launcherWithVersion version),
      Some ''--key'', key config] @
     (case wallet config of
        None \<Rightarrow> []
      | Some w \<Rightarrow> if w = [] then [] else [Some ''--wallet'', Some w]) @
     (case account config of
        None \<Rightarrow> []
      | Some a \<Rightarrow> if a = [] then [] else [Some ''--account'', Some a])"
    by (simp add: start_args_def truthy_def or_else_def split: option.splits)
  show "installService_dockerArgs version config h = start_args version config h"
    by (simp add: installService_dockerArgs_def start_args_def truthy_def or_else_def
        split: option.splits)
  show "\<forall>cmd args. SpawnProc cmd args \<in> set (effects (start version config h env)) \<longrightarrow>
      cmd = ''docker'' \<and>
      (args = [Some ''logs'', Some ''-f'', Some ''synchronizer-cli''] \<or>
       args = start_args version config h)"
    by (auto simp: start_def start_container_def Let_def
        split: if_splits sum.splits)
qed


theorem docker_run_argv_witness:
  "SpawnProc ''docker''
     (map Some [''run'', ''--rm'', ''--name'', ''synchronizer-cli'', ''--pull'', ''always'',
                ''--platform'', ''linux/arm64'', ''cdrakep/synqchronizer:latest'',
                ''--depin'', ''wss://api.multisynq.io/depin'',
                ''--sync-name'', ''synq-0123456789ab'',
                ''--launcher'', ''cli-1.0.0/docker-2.1.3'',
                ''--key'', ''0f8fad5b-d9cb-469f-a165-70867728950e'',
                ''--wallet'', ''0xAB''])
     \<in> set (effects (start ''1.0.0''
         (empty_config\<lparr>key := Some ''0f8fad5b-d9cb-469f-a165-70867728950e'',
            wallet := Some ''0xAB'', account := Some [], hostname := Some ''alpha'',
            syncHash := Some ''synq-0123456789ab''\<rparr>)
         \<lparr>os_hostname = ''alpha'', os_arch = ''aarch64'', os_platform = ''linux''\<rparr>
         \<lparr>env_shell = (\<lambda>cmd. if cmd = ''docker --version'' then Inr ''Docker version 27''
                               else Inl (Error ''exit status 1'')),
          env_install_answer = False,
          env_shell_installed = (\<lambda>cmd. Inl (Error ''exit status 1'')),
          env_logs_exit = 0, env_run_outcome = Exited 0\<rparr>)) \<and>
   start_args ''1.0.0''
     (empty_config\<lparr>key := Some ''0f8fad5b-d9cb-469f-a165-70867728950e'',
        wallet := Some ''0xAB'', account := Some [], hostname := Some ''alpha'',
        syncHash := Some ''synq-0123456789ab''\<rparr>)
     \<lparr>os_hostname = ''alpha'', os_arch = ''aarch64'', os_platform = ''linux''\<rparr>
   = map Some [''run'', ''--rm'', ''--name'', ''synchronizer-cli'', ''--pull'', ''always'',
               ''--platform'', ''linux/arm64'', ''cdrakep/synqchronizer:latest'',
               ''--depin'', ''wss://api.multisynq.io/depin'',
               ''--sync-name'', ''synq-0123456789ab'',
               ''--launcher'', ''cli-1.0.0/docker-2.1.3'',
               ''--key'', ''0f8fad5b-d9cb-469f-a165-70867728950e'',
               ''--wallet'', ''0xAB'']"
  (is "SpawnProc ''docker'' ?argv \<in> set (effects (start ''1.0.0'' ?c ?h ?env)) \<and> _")
proof -
  have mem: "SpawnProc ''docker'' ?argv \<in> set (effects (start ''1.0.0'' ?c ?h ?env))"
    by code_simp
  note launched = docker_run_argv [of "''1.0.0''" ?c ?h ?env,
      THEN conjunct2, THEN conjunct2, rule_format, OF mem]
  then have "?argv = start_args ''1.0.0'' ?c ?h"
    by simp
  with mem show ?thesis
    by (simp only: simp_thms)
qed


section \<open>Properties of the status view\<close>












section \<open>Properties of the performance view\<close>

lemma floor_rat_numeral: "\<lfloor>(numeral a :: rat) / numeral b\<rfloor> = numeral a div numeral b"
  using floor_divide_of_int_eq [of "numeral a" "numeral b", where ?'a = rat] by simp

lemma floor_rat_one: "\<lfloor>(1 :: rat) / numeral b\<rfloor> = 1 div numeral b"
  using floor_divide_of_int_eq [of 1 "numeral b", where ?'a = rat] by simp


lemma factor_at_values:
  "factor_at i = (if i = 0 then 1 else if i = 1 then 4 / 5 else if i = 2 then 1 / 2 else 0)"
proof -
  consider "i < 0" | "i = 0" | "i = 1" | "i = 2" | "3 \<le> i" by linarith
  then show ?thesis
    by cases (simp_all add: factor_at_def factors_def)
qed

lemma factor_at_indicator:
  "factor_at (indicator_or_poor v) = (if v = 0 \<or> v = 2 then 1 / 2 else if v = 1 then 4 / 5 else 0)"
  by (simp add: factor_at_values indicator_or_poor_def)


lemma real_qos_good_or_poor:
  assumes "availability cs \<in> {0, 2}" "reliability cs \<in> {0, 2}" "efficiency cs \<in> {0, 2}"
  shows "score (real_qos cs) = 15"
  using assms
  by (auto simp: real_qos_def Let_def factor_at_indicator js_round_def
      floor_rat_numeral floor_rat_one)




lemma getContainerStats_returns: "\<exists>r. getContainerStats env = Inr r"
  by (cases "getContainerStats env")
     (auto simp: getContainerStats_def try_catch_def split: sum.splits)


lemma performance_from_real:
  assumes "serviceStatus st = ''running''"
  shows "performance_from now rnd (Inr st) (Inr (Some cs)) =
     Inr \<lparr>perf_timestamp = now, perf = real_performance cs, perf_qos = real_qos cs\<rparr>"
  using assms by (simp add: performance_from_def and_then_def try_catch_def)









lemma getContainerStats_built:
  assumes "getContainerStats env = Inr (Some cs)"
  shows "\<exists>hours earning found. cs = build_stats env hours earning found"
  using assms
  by (auto simp: getContainerStats_def try_catch_def and_then_def Let_def
      split: option.splits sum.splits prod.splits if_splits)

lemma build_stats_availability:
  "availability (build_stats env hours earning found) = (if earning then 0 else 2) \<and>
   isEarningPoints (build_stats env hours earning found) = earning"
  by (simp add: build_stats_def Let_def)

text \<open>
  C9. When the service is running and the counters of a container were read, an indicator
  the container reports as 0 (good) enters the score as 2 (poor): its factor is 0.5 and its
  display percentage is 20. A container that is earning points always reports its
  availability as 0, so its availability is shown as 20, and with all three indicators at
  0 the score is 15.
\<close>

theorem good_indicator_counts_as_poor:
  assumes "getSystemStatus (tm_status env) = Inr st" and "serviceStatus st = ''running''"
    and "getContainerStats (tm_stats env) = Inr (Some cs)"
  shows "\<exists>v. getPerformanceData env = Inr v \<and>
     score (perf_qos v) =
       js_round (100 * factor_at (indicator_or_poor (availability cs)) *
                 factor_at (indicator_or_poor (reliability cs)) *
                 factor_at (indicator_or_poor (efficiency cs)) / 5) * 5 \<and>
     (availability cs = 0 \<longrightarrow>
        indicator_or_poor (availability cs) = 2 \<and>
        factor_at (indicator_or_poor (availability cs)) = 1 / 2 \<and>
        qos_availability (perf_qos v) = 20) \<and>
     (reliability cs = 0 \<longrightarrow>
        indicator_or_poor (reliability cs) = 2 \<and>
        factor_at (indicator_or_poor (reliability cs)) = 1 / 2 \<and>
        qos_reliability (perf_qos v) = 20) \<and>
     (efficiency cs = 0 \<longrightarrow>
        indicator_or_poor (efficiency cs) = 2 \<and>
        factor_at (indicator_or_poor (efficiency cs)) = 1 / 2 \<and>
        qos_efficiency (perf_qos v) = 20) \<and>
     (isEarningPoints cs \<longrightarrow> availability cs = 0 \<and> qos_availability (perf_qos v) = 20) \<and>
     (availability cs = 0 \<and> reliability cs = 0 \<and> efficiency cs = 0 \<longrightarrow>
        score (perf_qos v) = 15)"
proof -
  have run: "getPerformanceData env =
      Inr \<lparr>perf_timestamp = tm_now env, perf = real_performance cs, perf_qos = real_qos cs\<rparr>"
    using assms by (simp add: getPerformanceData_def performance_from_real)
  have sc: "score (real_qos cs) =
       js_round (100 * factor_at (indicator_or_poor (availability cs)) *
                 factor_at (indicator_or_poor (reliability cs)) *
                 factor_at (indicator_or_poor (efficiency cs)) / 5) * 5"
    by (simp only: real_qos_def Let_def qos.simps)
  have zero: "indicator_or_poor 0 = 2" "factor_at 2 = 1 / 2" "display_percent 2 = 20"
    by (simp_all add: factor_at_values indicator_or_poor_def display_percent_def)
  have shown: "qos_availability (real_qos cs) = display_percent (indicator_or_poor (availability cs)) \<and>
      qos_reliability (real_qos cs) = display_percent (indicator_or_poor (reliability cs)) \<and>
      qos_efficiency (real_qos cs) = display_percent (indicator_or_poor (efficiency cs))"
    by (simp only: real_qos_def Let_def qos.simps)
  from assms(3) obtain hours earning found where "cs = build_stats (tm_stats env) hours earning found"
    using getContainerStats_built by blast
  then have earn: "isEarningPoints cs \<longrightarrow> availability cs = 0"
    by (simp add: build_stats_availability)
  have all: "availability cs = 0 \<and> reliability cs = 0 \<and> efficiency cs = 0 \<longrightarrow>
      score (real_qos cs) = 15"
    using real_qos_good_or_poor [of cs] by simp
  have a: "availability cs = 0 \<longrightarrow>
        indicator_or_poor (availability cs) = 2 \<and>
        factor_at (indicator_or_poor (availability cs)) = 1 / 2 \<and>
        qos_availability (real_qos cs) = 20"
    by (simp add: zero shown)
  have b: "reliability cs = 0 \<longrightarrow>
        indicator_or_poor (reliability cs) = 2 \<and>
        factor_at (indicator_or_poor (reliability cs)) = 1 / 2 \<and>
        qos_reliability (real_qos cs) = 20"
    by (simp add: zero shown)
  have c: "efficiency cs = 0 \<longrightarrow>
        indicator_or_poor (efficiency cs) = 2 \<and>
        factor_at (indicator_or_poor (efficiency cs)) = 1 / 2 \<and>
        qos_efficiency (real_qos cs) = 20"
    by (simp add: zero shown)
  from earn a have d: "isEarningPoints cs \<longrightarrow>
      availability cs = 0 \<and> qos_availability (real_qos cs) = 20"
    by simp
  let ?v = "\<lparr>perf_timestamp = tm_now env, perf = real_performance cs, perf_qos = real_qos cs\<rparr>"
  have pq: "perf_qos ?v = real_qos cs"
    by simp
  from run sc a b c d all show ?thesis
    by (intro exI [of _ ?v] conjI; (simp only: pq)?; assumption)
qed

lemma busy_container_status:
  "(case getSystemStatus (tm_status (telemetry_on host_busy_container 48)) of
      Inl e \<Rightarrow> False | Inr st \<Rightarrow> serviceStatus st = ''running'')"
  by code_simp

lemma busy_container_stats:
  "(case getContainerStats (tm_stats (telemetry_on host_busy_container 48)) of
      Inr (Some cs) \<Rightarrow> isEarningPoints cs \<and> availability cs = 0 \<and> reliability cs = 0 \<and>
        efficiency cs = 0
    | _ \<Rightarrow> False)"
  by code_simp

theorem good_indicator_counts_as_poor_witness:
  "\<exists>v. getPerformanceData (telemetry_on host_busy_container 48) = Inr v \<and>
       score (perf_qos v) = 15 \<and> qos_availability (perf_qos v) = 20 \<and>
       qos_reliability (perf_qos v) = 20 \<and> qos_efficiency (perf_qos v) = 20"
proof -
  let ?env = "telemetry_on host_busy_container 48"
  obtain st where st: "getSystemStatus (tm_status ?env) = Inr st" "serviceStatus st = ''running''"
    using busy_container_status by (auto split: sum.splits)
  obtain cs where cs: "getContainerStats (tm_stats ?env) = Inr (Some cs)"
      "availability cs = 0" "reliability cs = 0" "efficiency cs = 0"
    using busy_container_stats by (auto split: sum.splits option.splits)
  from good_indicator_counts_as_poor [OF st cs(1)]
  obtain v where v: "getPerformanceData ?env = Inr v"
    and a: "availability cs = 0 \<longrightarrow>
        indicator_or_poor (availability cs) = 2 \<and>
        factor_at (indicator_or_poor (availability cs)) = 1 / 2 \<and>
        qos_availability (perf_qos v) = 20"
    and b: "reliability cs = 0 \<longrightarrow>
        indicator_or_poor (reliability cs) = 2 \<and>
        factor_at (indicator_or_poor (reliability cs)) = 1 / 2 \<and>
        qos_reliability (perf_qos v) = 20"
    and c: "efficiency cs = 0 \<longrightarrow>
        indicator_or_poor (efficiency cs) = 2 \<and>
        factor_at (indicator_or_poor (efficiency cs)) = 1 / 2 \<and>
        qos_efficiency (perf_qos v) = 20"
    and s: "availability cs = 0 \<and> reliability cs = 0 \<and> efficiency cs = 0 \<longrightarrow>
        score (perf_qos v) = 15"
    by (elim exE conjE) (rule that; assumption)
  from a b c s cs have "score (perf_qos v) = 15 \<and> qos_availability (perf_qos v) = 20 \<and>
       qos_reliability (perf_qos v) = 20 \<and> qos_efficiency (perf_qos v) = 20"
    by simp
  with v show ?thesis
    by (intro exI [of _ v]) simp
qed


section \<open>Properties of the points view\<close>

lemma find_container_none:
  assumes "\<forall>name \<in> set names.
     case sh (docker_ps_cmd name) of Inl e \<Rightarrow> True | Inr out \<Rightarrow> \<not> str_includes out name"
  shows "find_container sh names = None"
  using assms by (induction names) (auto split: sum.splits)

lemma getContainerStats_none:
  assumes "find_container (cs_shell env) containerNames = None"
  shows "getContainerStats env = Inr None"
  using assms by (simp add: getContainerStats_def try_catch_def)

lemma registry_failure:
  assumes "\<forall>url. case fetch url of Inl e \<Rightarrow> True | Inr r \<Rightarrow> \<not> resp_ok r"
  shows "\<exists>msg. fetchWalletLifetimePoints fetch now_ms k w = Inr (Failure msg)"
proof (cases w)
  case None
  then show ?thesis by (simp add: fetchWalletLifetimePoints_def)
next
  case (Some address)
  show ?thesis
  proof (cases "\<not> truthy k \<or> address = []")
    case True
    with Some show ?thesis by (auto simp: fetchWalletLifetimePoints_def)
  next
    case False
    from assms have first: "case fetch (wallet_url address) of
        Inl e \<Rightarrow> True | Inr r \<Rightarrow> \<not> resp_ok r"
      by blast
    from assms have second: "case fetch (depin_wallet_url address) of
        Inl e \<Rightarrow> True | Inr r \<Rightarrow> \<not> resp_ok r"
      by blast
    from Some False first second show ?thesis
      by (auto simp: fetchWalletLifetimePoints_def try_catch_def and_then_def
          split: sum.splits)
  qed
qed

lemma points_from_fallback:
  assumes "truthy (key config)" and "truthy (wallet config)"
  shows "points_from now rnd config (Inr (Failure msg)) (Inr None) =
     Inr (fallback_points now ''Synchronizer container not running - start it first'')"
  using assms by (simp add: points_from_def try_catch_def and_then_def)

text \<open>
  C2. With a key and a wallet, when every request to the registry fails (it throws or the
  response is not OK) and \<^verbatim>\<open>docker ps\<close> reports neither container name, the view holds zero
  points, \<open>fallback = true\<close> and a non-empty error text.
\<close>

theorem points_without_registry_or_container:
  assumes "truthy (key config)" and "truthy (wallet config)"
    and "\<forall>url. case pt_http env url of Inl e \<Rightarrow> True | Inr r \<Rightarrow> \<not> resp_ok r"
    and "\<forall>name \<in> set containerNames.
           case cs_shell (pt_stats env) (docker_ps_cmd name) of
             Inl e \<Rightarrow> True
           | Inr out \<Rightarrow> \<not> str_includes out name"
  shows "\<exists>v. getPointsData config env = Inr v \<and>
           total_points (points v) = 0 \<and> points v = zero_points \<and>
           fallback v = Some True \<and>
           (\<exists>msg. error v = Some msg \<and> msg \<noteq> [])"
proof -
  from assms(3) obtain msg where reg:
    "fetchWalletLifetimePoints (pt_http env) (pt_now_ms env) (key config) (wallet config)
       = Inr (Failure msg)"
    using registry_failure by blast
  from assms(4) have "getContainerStats (pt_stats env) = Inr None"
    by (intro getContainerStats_none find_container_none)
  with reg assms(1,2) have "getPointsData config env =
      Inr (fallback_points (pt_now env) ''Synchronizer container not running - start it first'')"
    by (simp add: getPointsData_def points_from_fallback)
  then show ?thesis
    by (simp add: fallback_points_def zero_points_def)
qed

theorem points_without_registry_or_container_witness:
  "truthy (key (empty_config\<lparr>key := Some ''k1'', wallet := Some ''0xAB''\<rparr>)) \<and>
   truthy (wallet (empty_config\<lparr>key := Some ''k1'', wallet := Some ''0xAB''\<rparr>)) \<and>
   (\<exists>v. getPointsData (empty_config\<lparr>key := Some ''k1'', wallet := Some ''0xAB''\<rparr>)
          (points_on registry_down host_without_container) = Inr v \<and>
        total_points (points v) = 0 \<and> fallback v = Some True \<and>
        (\<exists>msg. error v = Some msg \<and> msg \<noteq> []))"
proof -
  let ?c = "empty_config\<lparr>key := Some ''k1'', wallet := Some ''0xAB''\<rparr>"
  let ?env = "points_on registry_down host_without_container"
  have k: "truthy (key ?c)" and w: "truthy (wallet ?c)"
    by (simp_all add: truthy_def)
  have net: "\<forall>url. case pt_http ?env url of Inl e \<Rightarrow> True | Inr r \<Rightarrow> \<not> resp_ok r"
    by (simp add: points_on_def registry_down_def)
  have ps: "\<forall>name \<in> set containerNames.
           case cs_shell (pt_stats ?env) (docker_ps_cmd name) of
             Inl e \<Rightarrow> True
           | Inr out \<Rightarrow> \<not> str_includes out name"
    by (simp add: points_on_def host_without_container_def containerNames_def
        docker_ps_cmd_def systemctl_cmd_def)
  from points_without_registry_or_container [OF k w net ps]
  obtain v msg where "getPointsData ?c ?env = Inr v" "total_points (points v) = 0"
    "fallback v = Some True" "error v = Some msg \<and> msg \<noteq> []"
    by (elim exE conjE) (rule that; simp)
  then have "\<exists>v. getPointsData ?c ?env = Inr v \<and>
        total_points (points v) = 0 \<and> fallback v = Some True \<and>
        (\<exists>msg. error v = Some msg \<and> msg \<noteq> [])"
    by (intro exI [of _ v] exI [of _ msg] conjI; simp)
  with k w show ?thesis
    by (intro conjI)
qed

text \<open>
  C3 on the program. With neither key nor wallet, whatever the host, the function returns
  at line 2315: zero points and the error text, and no \<open>fallback\<close> property, which the two
  other zero-point results of the function (lines 2387 and 2431) do carry.
\<close>

theorem missing_config_points_no_fallback:
  "getPointsData empty_config env = Inr (missing_config_points (pt_now env)) \<and>
   points (missing_config_points (pt_now env)) = zero_points \<and>
   error (missing_config_points (pt_now env)) = Some ''Missing Synq key or wallet address'' \<and>
   fallback (missing_config_points (pt_now env)) = None \<and>
   fallback (fallback_points (pt_now env) msg) = Some True"
  by (simp add: getPointsData_def points_from_def empty_config_def truthy_def
      missing_config_points_def fallback_points_def)


end
